theory Spec2Isabelle
  imports Complex_Main
begin

section \<open>Data model\<close>

text \<open>
  The task documents of \<^verbatim>\<open>backend/models/Task.js\<close> and the \<^verbatim>\<open>Task\<close> interface of
  \<^verbatim>\<open>src/types/index.ts\<close>, restricted to the fields the prioritization reads. The
  schema's \<^verbatim>\<open>enum\<close> lists and the interface's union types fix the values of
  \<^verbatim>\<open>priority\<close> and \<^verbatim>\<open>status\<close> (the interface has no \<^verbatim>\<open>archived\<close>). A due date is
  absent (\<^verbatim>\<open>undefined\<close>, \<^verbatim>\<open>null\<close> or the empty string, all falsy) or a point in time,
  held as the milliseconds since the epoch that \<^verbatim>\<open>new Date(task.dueDate)\<close> stands for.
  \<^verbatim>\<open>timeSpent\<close> is a whole number of minutes.
\<close>

datatype priority = Low | Medium | High

datatype status = Todo | InProgress | Completed | Archived

record task =
  task_id :: string
  dueDate :: "int option"
  priority :: priority
  status :: status
  timeSpent :: int

text \<open>
  JavaScript values as far as the response objects need them: an object is the list of its
  own properties in insertion order (keys distinct), a missing property reads as
  \<^verbatim>\<open>undefined\<close>.
\<close>

datatype jsval =
    JUndefined
  | JNull
  | JBool bool
  | JNum real
  | JStr string
  | JArr "jsval list"
  | JObj "(string \<times> jsval) list"

record suggestion =
  taskId :: string
  suggestedPriority :: priority
  reason :: string
  confidence :: real

section \<open>Helpers of the language\<close>

text \<open>\<^verbatim>\<open>Array.prototype.join\<close> on a list of strings.\<close>

fun join :: "string \<Rightarrow> string list \<Rightarrow> string" where
  "join sep [] = []"
| "join sep [x] = x"
| "join sep (x # y # ys) = x @ sep @ join sep (y # ys)"

text \<open>
  \<^verbatim>\<open>Math.ceil((due - now) / (1000 * 60 * 60 * 24))\<close>: the backend subtracts the two
  \<^verbatim>\<open>Date\<close> objects (which coerces both through \<^verbatim>\<open>valueOf\<close>), the frontend subtracts
  their \<^verbatim>\<open>getTime()\<close>; both are the difference of the two millisecond counts. The
  quotient is taken in the reals. The source divides in double precision and compares the
  result only with 1, 3 and 7: a difference of more than \<open>k\<close> days exceeds \<open>k\<close> by at
  least one part in 86400000 of a day, far more than the rounding of a quotient of that
  size, so the rounded quotient decides each comparison the same way.
\<close>

definition daysUntilDue :: "int \<Rightarrow> int \<Rightarrow> int" where
  "daysUntilDue now due = \<lceil>real_of_int (due - now) / (1000 * 60 * 60 * 24)\<rceil>"

section \<open>Backend: \<^verbatim>\<open>generateRuleBasedPrioritization\<close>\<close>

text \<open>
  The body of the callback given to \<^verbatim>\<open>tasks.map\<close>, up to the last rule: the two
  local variables \<^verbatim>\<open>score\<close> and \<^verbatim>\<open>reasons\<close> threaded through the four rules in the
  order of the source.
\<close>

definition backend_rules :: "int \<Rightarrow> task \<Rightarrow> int \<times> string list" where
  "backend_rules now task =
    (let score = (0::int);
         reasons = ([]::string list);
         (score, reasons) =
           (case dueDate task of
              None \<Rightarrow> (score, reasons)
            | Some due \<Rightarrow>
                (let days = daysUntilDue now due in
                 if days \<le> 1 then (score + 40, reasons @ [''Due very soon''])
                 else if days \<le> 3 then (score + 25, reasons @ [''Due within 3 days''])
                 else if days \<le> 7 then (score + 15, reasons @ [''Due this week''])
                 else (score, reasons)));
         score = score + (case priority task of High \<Rightarrow> 30 | Medium \<Rightarrow> 15 | Low \<Rightarrow> 5);
         (score, reasons) =
           (if timeSpent task > 120
            then (score + 20, reasons @ [''Significant time invested''])
            else (score, reasons));
         (score, reasons) =
           (if status task = InProgress
            then (score + 15, reasons @ [''Currently in progress''])
            else (score, reasons))
     in (score, reasons))"

text \<open>
  The rest of the callback: the label, and the returned object. \<^verbatim>\<open>rand\<close> is the value
  \<^verbatim>\<open>Math.random()\<close> returns in this call.
\<close>

definition backend_suggest :: "int \<Rightarrow> real \<Rightarrow> task \<Rightarrow> suggestion" where
  "backend_suggest now rand task =
    (let (score, reasons) = backend_rules now task;
         suggested = (if score \<ge> 60 then High else if score \<ge> 30 then Medium else Low);
         joined = join '', '' reasons
     in \<lparr> taskId = task_id task,
          suggestedPriority = suggested,
          reason = (if joined = [] then ''Based on current workload analysis'' else joined),
          confidence = min 95 (max 60 (real_of_int score + rand * 20)) \<rparr>)"

text \<open>
  \<^verbatim>\<open>tasks.map(...)\<close>: the callback runs once per task, in order, and the \<open>i\<close>-th run
  takes the \<open>i\<close>-th value \<open>rnd i\<close> of the random source.
\<close>

definition backend_suggestions :: "int \<Rightarrow> (nat \<Rightarrow> real) \<Rightarrow> task list \<Rightarrow> suggestion list" where
  "backend_suggestions now rnd tasks =
     map (\<lambda>(i, task). backend_suggest now (rnd i) task) (enumerate 0 tasks)"

definition backend_insights :: "int \<Rightarrow> task list \<Rightarrow> string list" where
  "backend_insights now tasks =
     [''Prioritization based on deadlines, time investment, and current status'',
      if length (filter (\<lambda>t. case dueDate t of None \<Rightarrow> False | Some due \<Rightarrow> due < now) tasks) > 0
      then ''You have overdue tasks that need immediate attention''
      else ''No overdue tasks - good job staying on track!'']"

fun priority_name :: "priority \<Rightarrow> string" where
  "priority_name Low = ''low''"
| "priority_name Medium = ''medium''"
| "priority_name High = ''high''"

definition suggestion_obj :: "suggestion \<Rightarrow> jsval" where
  "suggestion_obj s =
     JObj [(''taskId'', JStr (taskId s)),
           (''suggestedPriority'', JStr (priority_name (suggestedPriority s))),
           (''reason'', JStr (reason s)),
           (''confidence'', JNum (confidence s))]"

definition generateRuleBasedPrioritization :: "int \<Rightarrow> (nat \<Rightarrow> real) \<Rightarrow> task list \<Rightarrow> jsval" where
  "generateRuleBasedPrioritization now rnd tasks =
     JObj [(''suggestions'', JArr (map suggestion_obj (backend_suggestions now rnd tasks))),
           (''insights'', JArr (map JStr (backend_insights now tasks)))]"

section \<open>Frontend: \<^verbatim>\<open>AIService.fallbackPrioritization\<close>\<close>

definition frontend_rules :: "int \<Rightarrow> task \<Rightarrow> int \<times> string list" where
  "frontend_rules now task =
    (let score = (0::int);
         reasons = ([]::string list);
         (score, reasons) =
           (case dueDate task of
              None \<Rightarrow> (score, reasons)
            | Some due \<Rightarrow>
                (let days = daysUntilDue now due in
                 if days \<le> 1 then (score + 40, reasons @ [''Due very soon''])
                 else if days \<le> 3 then (score + 25, reasons @ [''Due within 3 days''])
                 else if days \<le> 7 then (score + 15, reasons @ [''Due this week''])
                 else (score, reasons)));
         score = score + (case priority task of High \<Rightarrow> 30 | Medium \<Rightarrow> 15 | Low \<Rightarrow> 5);
         (score, reasons) =
           (if timeSpent task > 120
            then (score + 20, reasons @ [''Significant time invested''])
            else (score, reasons));
         (score, reasons) =
           (if status task = InProgress
            then (score + 15, reasons @ [''Currently in progress''])
            else (score, reasons))
     in (score, reasons))"

definition frontend_suggest :: "int \<Rightarrow> real \<Rightarrow> task \<Rightarrow> suggestion" where
  "frontend_suggest now rand task =
    (let (score, reasons) = frontend_rules now task;
         suggested = (if score \<ge> 60 then High else if score \<ge> 30 then Medium else Low);
         joined = join '', '' reasons
     in \<lparr> taskId = task_id task,
          suggestedPriority = suggested,
          reason = (if joined = [] then ''Based on current workload analysis'' else joined),
          confidence = min 95 (max 60 (real_of_int score + rand * 20)) \<rparr>)"

definition frontend_suggestions :: "int \<Rightarrow> (nat \<Rightarrow> real) \<Rightarrow> task list \<Rightarrow> suggestion list" where
  "frontend_suggestions now rnd tasks =
     map (\<lambda>(i, task). frontend_suggest now (rnd i) task) (enumerate 0 tasks)"

definition frontend_insights :: "int \<Rightarrow> task list \<Rightarrow> string list" where
  "frontend_insights now tasks =
     [''Prioritization based on deadlines, time investment, and current status'',
      if length (filter (\<lambda>t. case dueDate t of None \<Rightarrow> False | Some due \<Rightarrow> due < now) tasks) > 0
      then ''You have overdue tasks that need immediate attention''
      else ''No overdue tasks - good job staying on track!'']"

definition frontend_recommendations :: "string list" where
  "frontend_recommendations =
     [''Focus on high-priority items first'',
      ''Break large tasks into smaller, manageable chunks'',
      ''Use time-blocking to allocate focused work periods'',
      ''Review and adjust priorities weekly'']"

definition fallbackPrioritization :: "int \<Rightarrow> (nat \<Rightarrow> real) \<Rightarrow> task list \<Rightarrow> jsval" where
  "fallbackPrioritization now rnd tasks =
     JObj [(''suggestions'', JArr (map suggestion_obj (frontend_suggestions now rnd tasks))),
           (''insights'', JArr (map JStr (frontend_insights now tasks))),
           (''recommendations'', JArr (map JStr frontend_recommendations))]"

section \<open>Frontend: \<^verbatim>\<open>AIService.suggestPrioritization\<close>\<close>

text \<open>
  Truthiness, and \<^verbatim>\<open>a || b\<close>. A number parsed from JSON is never \<^verbatim>\<open>NaN\<close>.
\<close>

fun truthy :: "jsval \<Rightarrow> bool" where
  "truthy JUndefined = False"
| "truthy JNull = False"
| "truthy (JBool b) = b"
| "truthy (JNum x) = (x \<noteq> 0)"
| "truthy (JStr s) = (s \<noteq> [])"
| "truthy (JArr xs) = True"
| "truthy (JObj fs) = True"

definition js_or :: "jsval \<Rightarrow> jsval \<Rightarrow> jsval" where
  "js_or a b = (if truthy a then a else b)"

text \<open>\<^verbatim>\<open>Object.keys\<close> of an object, and \<^verbatim>\<open>Array.isArray\<close>.\<close>

definition own_keys :: "jsval \<Rightarrow> string list" where
  "own_keys v = (case v of JObj fs \<Rightarrow> map fst fs | _ \<Rightarrow> [])"

fun is_list :: "jsval \<Rightarrow> bool" where
  "is_list (JArr xs) = True"
| "is_list v = False"

datatype js_error = TypeError | RequestError

text \<open>
  Reading the property \<open>k\<close> of a value, for the three names read below (none of them a
  property that arrays, strings, numbers or booleans have): \<^verbatim>\<open>null\<close> and
  \<^verbatim>\<open>undefined\<close> throw a \<^verbatim>\<open>TypeError\<close>, an object gives its property or
  \<^verbatim>\<open>undefined\<close>, every other value gives \<^verbatim>\<open>undefined\<close>.
\<close>

fun get_prop :: "jsval \<Rightarrow> string \<Rightarrow> js_error + jsval" where
  "get_prop JUndefined k = Inl TypeError"
| "get_prop JNull k = Inl TypeError"
| "get_prop (JObj fs) k = Inr (case map_of fs k of None \<Rightarrow> JUndefined | Some v \<Rightarrow> v)"
| "get_prop v k = Inr JUndefined"

text \<open>
  The object literal returned inside the \<^verbatim>\<open>try\<close> block, from the value \<^verbatim>\<open>data\<close>
  that \<^verbatim>\<open>makeRequest\<close> resolved with. The three property reads happen in the order of
  the literal; the first that throws leaves the block.
\<close>

definition prioritization_reply :: "jsval \<Rightarrow> js_error + jsval" where
  "prioritization_reply data =
     (case get_prop data ''suggestions'' of
        Inl e \<Rightarrow> Inl e
      | Inr s \<Rightarrow>
          (case get_prop data ''insights'' of
             Inl e \<Rightarrow> Inl e
           | Inr i \<Rightarrow>
               (case get_prop data ''recommendations'' of
                  Inl e \<Rightarrow> Inl e
                | Inr r \<Rightarrow>
                    Inr (JObj [(''suggestions'', js_or s (JArr [])),
                               (''insights'', js_or i (JArr [])),
                               (''recommendations'', js_or r (JArr []))]))))"

text \<open>
  \<^verbatim>\<open>suggestPrioritization\<close>: \<open>request\<close> is the outcome of
  \<^verbatim>\<open>await this.makeRequest('/ai/prioritize', ...)\<close>, which throws when the fetch fails,
  the status is not ok or the body is not JSON, and otherwise resolves with the parsed
  body. Any exception of the \<^verbatim>\<open>try\<close> block ends in the local fallback.
\<close>

definition suggestPrioritization ::
  "int \<Rightarrow> (nat \<Rightarrow> real) \<Rightarrow> js_error + jsval \<Rightarrow> task list \<Rightarrow> jsval" where
  "suggestPrioritization now rnd request tasks =
     (case request of
        Inl e \<Rightarrow> fallbackPrioritization now rnd tasks
      | Inr data \<Rightarrow>
          (case prioritization_reply data of
             Inl e \<Rightarrow> fallbackPrioritization now rnd tasks
           | Inr result \<Rightarrow> result))"

section \<open>Backend: the route \<^verbatim>\<open>POST /prioritize\<close>\<close>

text \<open>
  What the handler awaits is given by its environment: the result of the first
  \<^verbatim>\<open>Task.find\<close> (the user's tasks whose status is not \<^verbatim>\<open>completed\<close>; \<open>None\<close> when the
  query rejects), whether \<^verbatim>\<open>Project.find\<close> resolves, the outcome of the remote
  completion, and the result of the second \<^verbatim>\<open>Task.find\<close>, made in the \<^verbatim>\<open>catch\<close>
  block.
\<close>

datatype ai_result =
    AIRejected
  | AIUnparsable
  | AIParsed jsval

text \<open>
  \<open>AIRejected\<close>: \<^verbatim>\<open>openai.chat.completions.create\<close> throws. \<open>AIUnparsable\<close>: reading
  \<^verbatim>\<open>completion.choices[0].message.content\<close> or \<^verbatim>\<open>JSON.parse\<close> of it throws, inside the
  inner \<^verbatim>\<open>try\<close>. \<open>AIParsed v\<close>: \<^verbatim>\<open>JSON.parse\<close> returns \<open>v\<close>.
\<close>

record env =
  find_tasks :: "task list option"
  find_projects :: bool
  ai :: ai_result
  refind_tasks :: "task list option"

text \<open>The calls the handler makes, in order, recorded beside the response.\<close>

datatype event = FindTasks | FindProjects | RemoteAICall | ScoringCall

record response =
  http_status :: nat
  body :: jsval

definition no_active_tasks :: jsval where
  "no_active_tasks =
     JObj [(''suggestions'', JArr []),
           (''insights'', JArr [JStr ''No active tasks found to prioritize.''])]"

text \<open>The outer \<^verbatim>\<open>catch\<close> block; \<open>calls\<close> holds the calls made before the exception.\<close>

definition prioritize_catch ::
  "int \<Rightarrow> (nat \<Rightarrow> real) \<Rightarrow> env \<Rightarrow> event list \<Rightarrow> response \<times> event list" where
  "prioritize_catch now rnd e calls =
     (case refind_tasks e of
        None \<Rightarrow>
          (\<lparr> http_status = 500,
             body = JObj [(''message'', JStr ''Server error generating prioritization'')] \<rparr>,
           calls @ [FindTasks])
      | Some tasks \<Rightarrow>
          (\<lparr> http_status = 200, body = generateRuleBasedPrioritization now rnd tasks \<rparr>,
           calls @ [FindTasks, ScoringCall]))"

definition prioritize :: "int \<Rightarrow> (nat \<Rightarrow> real) \<Rightarrow> env \<Rightarrow> response \<times> event list" where
  "prioritize now rnd e =
     (case find_tasks e of
        None \<Rightarrow> prioritize_catch now rnd e [FindTasks]
      | Some tasks \<Rightarrow>
          if \<not> find_projects e then prioritize_catch now rnd e [FindTasks, FindProjects]
          else if length tasks = 0 then
            (\<lparr> http_status = 200, body = no_active_tasks \<rparr>, [FindTasks, FindProjects])
          else
            (case ai e of
               AIRejected \<Rightarrow>
                 prioritize_catch now rnd e [FindTasks, FindProjects, RemoteAICall]
             | AIUnparsable \<Rightarrow>
                 (\<lparr> http_status = 200, body = generateRuleBasedPrioritization now rnd tasks \<rparr>,
                  [FindTasks, FindProjects, RemoteAICall, ScoringCall])
             | AIParsed v \<Rightarrow>
                 (\<lparr> http_status = 200, body = v \<rparr>,
                  [FindTasks, FindProjects, RemoteAICall])))"

section \<open>Concrete inputs\<close>

text \<open>Two random sources: one that always draws 0, one that always draws 1/2.\<close>

definition draw_zero :: "nat \<Rightarrow> real" where
  "draw_zero i = 0"

definition draw_half :: "nat \<Rightarrow> real" where
  "draw_half i = 1 / 2"

definition one_day :: int where
  "one_day = 1000 * 60 * 60 * 24"

text \<open>Tasks: due in one day with 150 minutes spent; overdue; due in ten and in two days.\<close>

definition task_busy :: task where
  "task_busy = \<lparr> task_id = ''t1'', dueDate = Some one_day, priority = High,
                 status = Todo, timeSpent = 150 \<rparr>"

definition task_overdue :: task where
  "task_overdue = \<lparr> task_id = ''t2'', dueDate = Some (- 1), priority = Low,
                 status = Todo, timeSpent = 0 \<rparr>"

definition task_far :: task where
  "task_far = \<lparr> task_id = ''t3'', dueDate = Some (10 * one_day), priority = High,
                 status = Todo, timeSpent = 0 \<rparr>"

definition task_near :: task where
  "task_near = \<lparr> task_id = ''t4'', dueDate = Some (2 * one_day), priority = High,
                 status = Todo, timeSpent = 0 \<rparr>"

text \<open>The scenario of the specification: medium priority, 150 minutes, in progress, due in two days.\<close>

definition task_scenario :: task where
  "task_scenario = \<lparr> task_id = ''t5'', dueDate = Some (2 * one_day), priority = Medium,
                 status = InProgress, timeSpent = 150 \<rparr>"

text \<open>
  An environment of the route: the task query gives no task and the project query
  rejects, then the second task query gives no task again.
\<close>

definition env_projects_fail :: env where
  "env_projects_fail =
     \<lparr> find_tasks = Some [], find_projects = False, ai = AIRejected, refind_tasks = Some [] \<rparr>"

text \<open>Remote replies: one whose \<^verbatim>\<open>suggestions\<close> is a text; one with a field missing and a field null.\<close>

definition reply_text_field :: jsval where
  "reply_text_field = JObj [(''suggestions'', JStr ''none'')]"

definition reply_partial :: jsval where
  "reply_partial = JObj [(''insights'', JArr [JStr ''Plan ahead'']), (''recommendations'', JNull)]"

section \<open>The scoring rule as the specification words it\<close>

text \<open>
  The days until due of the specification, the ceiling of the time left over one day,
  written in whole milliseconds and without reference to the code's expression.
\<close>

definition spec_days_until_due :: "int \<Rightarrow> int \<Rightarrow> int" where
  "spec_days_until_due now due = - ((now - due) div 86400000)"

definition spec_deadline_points :: "int \<Rightarrow> int option \<Rightarrow> int" where
  "spec_deadline_points now d =
     (case d of
        None \<Rightarrow> 0
      | Some due \<Rightarrow>
          if spec_days_until_due now due \<le> 1 then 40
          else if spec_days_until_due now due \<le> 3 then 25
          else if spec_days_until_due now due \<le> 7 then 15
          else 0)"

definition spec_score :: "int \<Rightarrow> task \<Rightarrow> int" where
  "spec_score now t =
     spec_deadline_points now (dueDate t)
     + (case priority t of High \<Rightarrow> 30 | Medium \<Rightarrow> 15 | Low \<Rightarrow> 5)
     + (if timeSpent t > 120 then 20 else 0)
     + (if status t = InProgress then 15 else 0)"

section \<open>Properties of the scoring rules\<close>

lemma spec_days_eq: "spec_days_until_due now due = daysUntilDue now due"
proof -
  have "real_of_int (due - now) / (1000 * 60 * 60 * 24)
      = real_of_int (due - now) / real_of_int 86400000"
    by simp
  then have "daysUntilDue now due = \<lceil>real_of_int (due - now) / real_of_int 86400000\<rceil>"
    by (simp only: daysUntilDue_def)
  also have "\<dots> = - (- (due - now) div 86400000)"
    by (rule ceiling_divide_eq_div)
  finally show ?thesis
    by (simp add: spec_days_until_due_def)
qed

lemma spec_days_is_ceiling:
  "real_of_int (spec_days_until_due now due) - 1 < real_of_int (due - now) / 86400000
   \<and> real_of_int (due - now) / 86400000 \<le> real_of_int (spec_days_until_due now due)"
proof -
  let ?d = "spec_days_until_due now due"
  have d: "?d = - ((now - due) div 86400000)"
    by (simp add: spec_days_until_due_def)
  have split: "now - due = (now - due) div 86400000 * 86400000 + (now - due) mod 86400000"
    by simp
  have m0: "0 \<le> (now - due) mod 86400000"
    by simp
  have m1: "(now - due) mod 86400000 < 86400000"
    by simp
  have up: "due - now \<le> ?d * 86400000"
    unfolding d using split m0 by linarith
  have lo: "(?d - 1) * 86400000 < due - now"
  proof -
    have "(?d - 1) * 86400000 = - ((now - due) div 86400000 * 86400000) - 86400000"
      unfolding d by (simp add: algebra_simps)
    then show ?thesis
      using split m1 by linarith
  qed
  have "real_of_int ((?d - 1) * 86400000) < real_of_int (due - now)"
    using lo by (simp only: of_int_less_iff)
  moreover have "real_of_int (due - now) \<le> real_of_int (?d * 86400000)"
    using up by (simp only: of_int_le_iff)
  ultimately show ?thesis
    by (simp add: pos_less_divide_eq pos_divide_le_eq)
qed

lemma backend_rules_score: "fst (backend_rules now t) = spec_score now t"
  by (simp add: backend_rules_def spec_score_def spec_deadline_points_def spec_days_eq
      Let_def split: option.split)

lemma frontend_rules_score: "fst (frontend_rules now t) = spec_score now t"
  by (simp add: frontend_rules_def spec_score_def spec_deadline_points_def spec_days_eq
      Let_def split: option.split)

lemma backend_suggest_label:
  "suggestedPriority (backend_suggest now r t) =
     (if fst (backend_rules now t) \<ge> 60 then High
      else if fst (backend_rules now t) \<ge> 30 then Medium else Low)"
  by (simp add: backend_suggest_def Let_def split: prod.split)

lemma frontend_suggest_label:
  "suggestedPriority (frontend_suggest now r t) =
     (if fst (frontend_rules now t) \<ge> 60 then High
      else if fst (frontend_rules now t) \<ge> 30 then Medium else Low)"
  by (simp add: frontend_suggest_def Let_def split: prod.split)

text \<open>
  Claim C1. For every task and every current time, both scoring functions compute the
  score as the sum of the deadline points (only when a due date is set; with the days
  until due the ceiling of the time left over one day, the first matching of
  \<open>days \<le> 1\<close>: 40, \<open>days \<le> 3\<close>: 25, \<open>days \<le> 7\<close>: 15, else nothing), the
  priority weight (high 30, medium 15, low 5), 20 when more than 120 minutes were spent
  and 15 when the task is in progress; the label is high exactly when the score is at
  least 60, medium exactly when it is in 30..59, and low exactly when it is below 30.
\<close>

theorem C1_score_and_label:
  "fst (backend_rules now t) = spec_score now t
   \<and> fst (frontend_rules now t) = spec_score now t
   \<and> daysUntilDue now due = spec_days_until_due now due
   \<and> real_of_int (spec_days_until_due now due) - 1 < real_of_int (due - now) / 86400000
   \<and> real_of_int (due - now) / 86400000 \<le> real_of_int (spec_days_until_due now due)
   \<and> (suggestedPriority (backend_suggest now r t) = High) = (60 \<le> spec_score now t)
   \<and> (suggestedPriority (backend_suggest now r t) = Medium)
       = (30 \<le> spec_score now t \<and> spec_score now t < 60)
   \<and> (suggestedPriority (backend_suggest now r t) = Low) = (spec_score now t < 30)
   \<and> (suggestedPriority (frontend_suggest now r t) = High) = (60 \<le> spec_score now t)
   \<and> (suggestedPriority (frontend_suggest now r t) = Medium)
       = (30 \<le> spec_score now t \<and> spec_score now t < 60)
   \<and> (suggestedPriority (frontend_suggest now r t) = Low) = (spec_score now t < 30)"
  using spec_days_is_ceiling [of now due]
  by (simp add: backend_suggest_label frontend_suggest_label
      backend_rules_score frontend_rules_score spec_days_eq [symmetric])

section \<open>Auxiliary facts\<close>

lemma daysUntilDue_le_iff:
  "(daysUntilDue now due \<le> k) = (due - now \<le> k * 86400000)"
proof -
  have "(daysUntilDue now due \<le> k) = (real_of_int (due - now) / 86400000 \<le> real_of_int k)"
    by (simp add: daysUntilDue_def ceiling_le_iff)
  also have "\<dots> = (real_of_int (due - now) \<le> real_of_int (k * 86400000))"
    by (simp add: pos_divide_le_eq)
  also have "\<dots> = (due - now \<le> k * 86400000)"
    by (simp only: of_int_le_iff)
  finally show ?thesis .
qed

lemma map_enumerate_indep:
  assumes "\<And>i t. g (f i t) = h t"
  shows "map g (map (\<lambda>(i, t). f i t) (enumerate n xs)) = map h xs"
  using assms by (induction xs arbitrary: n) simp_all

lemma backend_suggest_reason:
  "reason (backend_suggest now r t) =
     (if join '', '' (snd (backend_rules now t)) = [] then ''Based on current workload analysis''
      else join '', '' (snd (backend_rules now t)))"
  by (simp add: backend_suggest_def Let_def split: prod.split)

lemma frontend_suggest_reason:
  "reason (frontend_suggest now r t) =
     (if join '', '' (snd (frontend_rules now t)) = [] then ''Based on current workload analysis''
      else join '', '' (snd (frontend_rules now t)))"
  by (simp add: frontend_suggest_def Let_def split: prod.split)

lemma rules_agree: "frontend_rules now t = backend_rules now t"
  by (simp add: frontend_rules_def backend_rules_def)

lemma backend_suggest_confidence:
  "confidence (backend_suggest now r t)
     = min 95 (max 60 (real_of_int (fst (backend_rules now t)) + r * 20))"
  by (simp add: backend_suggest_def Let_def split: prod.split)

lemma frontend_suggest_confidence:
  "confidence (frontend_suggest now r t)
     = min 95 (max 60 (real_of_int (fst (frontend_rules now t)) + r * 20))"
  by (simp add: frontend_suggest_def Let_def split: prod.split)

lemma overdue_filter:
  "(length (filter (\<lambda>t. case dueDate t of None \<Rightarrow> False | Some due \<Rightarrow> due < now) tasks) > 0)
     = (\<exists>t \<in> set tasks. \<exists>due. dueDate t = Some due \<and> due < now)"
  by (induction tasks) (auto split: option.splits)

lemma spec_deadline_points_antimono:
  "daysUntilDue now due2 \<le> daysUntilDue now due1 \<Longrightarrow>
   spec_deadline_points now (Some due1) \<le> spec_deadline_points now (Some due2)"
  by (simp add: spec_deadline_points_def spec_days_eq)

lemma js_or_list: "truthy (js_or v (JArr []))"
  by (simp add: js_or_def)

lemma js_or_is_list: "is_list (js_or v (JArr [])) = (is_list v \<or> \<not> truthy v)"
  by (cases v) (simp_all add: js_or_def)

text \<open>
  The scenario of the specification: 25 + 15 + 20 + 15 = 75, label high, and the three
  reasons joined in the order the rules fire.
\<close>

lemma scenario_medium_in_progress:
  "fst (backend_rules 0 task_scenario) = 75
   \<and> suggestedPriority (backend_suggest 0 0 task_scenario) = High
   \<and> reason (backend_suggest 0 0 task_scenario)
       = ''Due within 3 days, Significant time invested, Currently in progress''
   \<and> confidence (backend_suggest 0 0 task_scenario) = 75"
proof -
  have r: "backend_rules 0 task_scenario
      = (75, [''Due within 3 days'', ''Significant time invested'', ''Currently in progress''])"
    by (simp add: backend_rules_def daysUntilDue_le_iff task_scenario_def one_day_def)
  show ?thesis
    by (simp add: backend_suggest_def r)
qed

section \<open>The claims\<close>

text \<open>
  Claim C2. The backend and the frontend implement the same heuristic: on the same
  tasks and the same current time, whatever the two random sources draw, the two lists of
  suggestions carry the same suggested priorities and the same reasons, task by task (and
  each echoes the task ids in order).
\<close>

theorem C2_backend_frontend_agree:
  "map suggestedPriority (backend_suggestions now rnd tasks)
     = map suggestedPriority (frontend_suggestions now rnd' tasks)
   \<and> map reason (backend_suggestions now rnd tasks)
     = map reason (frontend_suggestions now rnd' tasks)
   \<and> map taskId (backend_suggestions now rnd tasks) = map task_id tasks
   \<and> map taskId (frontend_suggestions now rnd' tasks) = map task_id tasks"
proof -
  let ?label = "\<lambda>t. if fst (backend_rules now t) \<ge> 60 then High
      else if fst (backend_rules now t) \<ge> 30 then Medium else Low"
  let ?why = "\<lambda>t. if join '', '' (snd (backend_rules now t)) = []
      then ''Based on current workload analysis''
      else join '', '' (snd (backend_rules now t))"
  have b1: "map suggestedPriority (backend_suggestions now rnd tasks) = map ?label tasks"
    unfolding backend_suggestions_def
    by (rule map_enumerate_indep) (simp add: backend_suggest_label)
  have f1: "map suggestedPriority (frontend_suggestions now rnd' tasks) = map ?label tasks"
    unfolding frontend_suggestions_def
    by (rule map_enumerate_indep) (simp add: frontend_suggest_label rules_agree)
  have b2: "map reason (backend_suggestions now rnd tasks) = map ?why tasks"
    unfolding backend_suggestions_def
    by (rule map_enumerate_indep) (simp add: backend_suggest_reason)
  have f2: "map reason (frontend_suggestions now rnd' tasks) = map ?why tasks"
    unfolding frontend_suggestions_def
    by (rule map_enumerate_indep) (simp add: frontend_suggest_reason rules_agree)
  have b3: "map taskId (backend_suggestions now rnd tasks) = map task_id tasks"
    unfolding backend_suggestions_def
    by (rule map_enumerate_indep) (simp add: backend_suggest_def Let_def split: prod.split)
  have f3: "map taskId (frontend_suggestions now rnd' tasks) = map task_id tasks"
    unfolding frontend_suggestions_def
    by (rule map_enumerate_indep) (simp add: frontend_suggest_def Let_def split: prod.split)
  show ?thesis using b1 f1 b2 f2 b3 f3 by simp
qed

text \<open>
  The try path of the route: when the task query returns no task and the project query
  resolves, the handler answers at once with the envelope of no active tasks, calling
  neither the scoring function nor the remote model.
\<close>

lemma prioritize_empty_try_path:
  assumes "find_tasks e = Some []" and "find_projects e"
  shows "prioritize now rnd e =
           (\<lparr> http_status = 200,
              body = JObj [(''suggestions'', JArr []),
                           (''insights'', JArr [JStr ''No active tasks found to prioritize.''])] \<rparr>,
            [FindTasks, FindProjects])"
  using assms by (simp add: prioritize_def no_active_tasks_def)

text \<open>
  Claim C3. An empty fetched task list should give exactly the envelope with no
  suggestions and the single insight "No active tasks found to prioritize.", without a
  call of the scoring function. The handler does not do so on its catch path: when the
  task query returns no task and the project query rejects, the catch block queries the
  tasks again, runs the scoring function on the empty list and answers with the two
  insights of the heuristic.
\<close>

theorem C3_catch_path_scores_empty_list:
  "find_tasks env_projects_fail = Some []
   \<and> prioritize 0 draw_zero env_projects_fail =
       (\<lparr> http_status = 200,
          body = JObj [(''suggestions'', JArr []),
                       (''insights'',
                        JArr [JStr ''Prioritization based on deadlines, time investment, and current status'',
                              JStr ''No overdue tasks - good job staying on track!''])] \<rparr>,
        [FindTasks, FindProjects, FindTasks, ScoringCall])
   \<and> body (fst (prioritize 0 draw_zero env_projects_fail)) \<noteq> no_active_tasks
   \<and> ScoringCall \<in> set (snd (prioritize 0 draw_zero env_projects_fail))"
  by (simp add: env_projects_fail_def prioritize_def prioritize_catch_def
      generateRuleBasedPrioritization_def backend_suggestions_def backend_insights_def
      no_active_tasks_def)

text \<open>
  Claim C4. For a non-empty task list without completed tasks, the second insight of
  both scoring functions is "You have overdue tasks that need immediate attention"
  exactly when some task has a due date strictly before now (and is not completed), and
  "No overdue tasks - good job staying on track!" otherwise.
\<close>

theorem C4_overdue_insight:
  assumes "tasks \<noteq> []" and "\<forall>t \<in> set tasks. status t \<noteq> Completed"
  shows "length (backend_insights now tasks) = 2
     \<and> (backend_insights now tasks ! 1 = ''You have overdue tasks that need immediate attention'')
         = (\<exists>t \<in> set tasks. \<exists>due. dueDate t = Some due \<and> due < now \<and> status t \<noteq> Completed)
     \<and> (backend_insights now tasks ! 1 = ''No overdue tasks - good job staying on track!'')
         = (\<not> (\<exists>t \<in> set tasks. \<exists>due. dueDate t = Some due \<and> due < now \<and> status t \<noteq> Completed))
     \<and> length (frontend_insights now tasks) = 2
     \<and> (frontend_insights now tasks ! 1 = ''You have overdue tasks that need immediate attention'')
         = (\<exists>t \<in> set tasks. \<exists>due. dueDate t = Some due \<and> due < now \<and> status t \<noteq> Completed)
     \<and> (frontend_insights now tasks ! 1 = ''No overdue tasks - good job staying on track!'')
         = (\<not> (\<exists>t \<in> set tasks. \<exists>due. dueDate t = Some due \<and> due < now \<and> status t \<noteq> Completed))"
proof -
  have same: "(\<exists>t \<in> set tasks. \<exists>due. dueDate t = Some due \<and> due < now \<and> status t \<noteq> Completed)
      = (\<exists>t \<in> set tasks. \<exists>due. dueDate t = Some due \<and> due < now)"
    using assms(2) by blast
  show ?thesis
    unfolding same
    by (simp add: backend_insights_def frontend_insights_def overdue_filter
        del: length_greater_0_conv)
qed

text \<open>
  Claim C4 at a list with one overdue task.
\<close>

theorem C4_overdue_insight_witness:
  "[task_overdue] \<noteq> [] \<and> status task_overdue \<noteq> Completed
   \<and> backend_insights 0 [task_overdue] ! 1 = ''You have overdue tasks that need immediate attention''
   \<and> frontend_insights 0 [task_overdue] ! 1 = ''You have overdue tasks that need immediate attention''"
  using C4_overdue_insight [of "[task_overdue]" 0]
  by (simp add: task_overdue_def)

text \<open>
  Claim C5. With every draw of the random source in [0, 1), the confidence of the
  \<open>i\<close>-th suggestion is min(95, max(60, score + j)) for the jitter \<open>j = 20 * rnd i\<close>,
  which lies in [0, 20), and the confidence lies in [60, 95].
\<close>

theorem C5_confidence_range:
  assumes "\<forall>i. 0 \<le> rnd i \<and> rnd i < 1" and "i < length tasks"
  shows "confidence (backend_suggestions now rnd tasks ! i)
           = min 95 (max 60 (real_of_int (fst (backend_rules now (tasks ! i))) + rnd i * 20))
       \<and> confidence (frontend_suggestions now rnd tasks ! i)
           = min 95 (max 60 (real_of_int (fst (frontend_rules now (tasks ! i))) + rnd i * 20))
       \<and> 0 \<le> rnd i * 20 \<and> rnd i * 20 < 20
       \<and> 60 \<le> confidence (backend_suggestions now rnd tasks ! i)
       \<and> confidence (backend_suggestions now rnd tasks ! i) \<le> 95
       \<and> 60 \<le> confidence (frontend_suggestions now rnd tasks ! i)
       \<and> confidence (frontend_suggestions now rnd tasks ! i) \<le> 95"
proof -
  have b: "backend_suggestions now rnd tasks ! i = backend_suggest now (rnd i) (tasks ! i)"
    using assms(2) by (simp add: backend_suggestions_def nth_enumerate_eq)
  have f: "frontend_suggestions now rnd tasks ! i = frontend_suggest now (rnd i) (tasks ! i)"
    using assms(2) by (simp add: frontend_suggestions_def nth_enumerate_eq)
  have r: "0 \<le> rnd i * 20 \<and> rnd i * 20 < 20"
    using assms(1) by (simp add: mult_less_cancel_right2)
  show ?thesis
    using r by (simp add: b f backend_suggest_confidence frontend_suggest_confidence)
qed

text \<open>
  Claim C5 at three tasks and the source that always draws 1/2: the upper clamp (score
  90), the lower clamp (score 45) and the unclamped middle (score 55).
\<close>

theorem C5_confidence_range_witness:
  "(\<forall>i. 0 \<le> draw_half i \<and> draw_half i < 1)
   \<and> confidence (backend_suggestions 0 draw_half [task_busy] ! 0) = 95
   \<and> confidence (backend_suggestions 0 draw_half [task_overdue] ! 0) = 60
   \<and> confidence (frontend_suggestions 0 draw_half [task_near] ! 0) = 65"
proof -
  have h: "\<forall>i. 0 \<le> draw_half i \<and> draw_half i < 1"
    by (simp add: draw_half_def)
  have s1: "fst (backend_rules 0 task_busy) = 90"
    by (simp add: backend_rules_score spec_score_def spec_deadline_points_def spec_days_eq
        daysUntilDue_le_iff task_busy_def one_day_def)
  have s2: "fst (backend_rules 0 task_overdue) = 45"
    by (simp add: backend_rules_score spec_score_def spec_deadline_points_def spec_days_eq
        daysUntilDue_le_iff task_overdue_def)
  have s3: "fst (frontend_rules 0 task_near) = 55"
    by (simp add: frontend_rules_score spec_score_def spec_deadline_points_def spec_days_eq
        daysUntilDue_le_iff task_near_def one_day_def)
  have d: "draw_half 0 = 1 / 2"
    by (simp add: draw_half_def)
  show ?thesis
    using h C5_confidence_range [OF h, of 0 "[task_busy]" 0]
      C5_confidence_range [OF h, of 0 "[task_overdue]" 0]
      C5_confidence_range [OF h, of 0 "[task_near]" 0]
    by (simp add: s1 s2 s3 d)
qed

text \<open>
  Claim C6. The frontend fallback returns an object with the fields suggestions,
  insights and recommendations, the last being the list of four fixed strings; the
  backend fallback returns an object with the fields suggestions and insights only, so
  that reading its recommendations gives undefined.
\<close>

theorem C6_recommendations_shape:
  "own_keys (fallbackPrioritization now rnd tasks) = [''suggestions'', ''insights'', ''recommendations'']
   \<and> get_prop (fallbackPrioritization now rnd tasks) ''recommendations''
       = Inr (JArr [JStr ''Focus on high-priority items first'',
                    JStr ''Break large tasks into smaller, manageable chunks'',
                    JStr ''Use time-blocking to allocate focused work periods'',
                    JStr ''Review and adjust priorities weekly''])
   \<and> own_keys (generateRuleBasedPrioritization now rnd tasks) = [''suggestions'', ''insights'']
   \<and> get_prop (generateRuleBasedPrioritization now rnd tasks) ''recommendations'' = Inr JUndefined"
  by (simp add: own_keys_def fallbackPrioritization_def generateRuleBasedPrioritization_def
      frontend_recommendations_def)

text \<open>
  Claim C7, as amended. For a task due exactly one day from now with priority high, the
  score is 40 + 30, plus 20 when more than 120 minutes were spent, plus 15 when the task
  is in progress; it equals 70 exactly when neither of the two applies; the label is high
  in every case.
\<close>

theorem C7_due_in_one_day_high:
  assumes "dueDate t = Some (now + one_day)" and "priority t = High"
  shows "fst (backend_rules now t)
           = 40 + 30 + (if timeSpent t > 120 then 20 else 0) + (if status t = InProgress then 15 else 0)
       \<and> (fst (backend_rules now t) = 40 + 30) = (timeSpent t \<le> 120 \<and> status t \<noteq> InProgress)
       \<and> suggestedPriority (backend_suggest now r t) = High"
  using assms
  by (simp add: backend_suggest_label backend_rules_score spec_score_def
      spec_deadline_points_def spec_days_eq daysUntilDue_le_iff one_day_def)

text \<open>
  The amended claim C7 at a task with 150 minutes spent.
\<close>

theorem C7_due_in_one_day_high_witness:
  "dueDate task_busy = Some (0 + one_day) \<and> priority task_busy = High
   \<and> fst (backend_rules 0 task_busy) = 40 + 30 + 20
   \<and> suggestedPriority (backend_suggest 0 0 task_busy) = High"
  using C7_due_in_one_day_high [of task_busy 0 0]
  by (simp add: task_busy_def)

text \<open>
  Claim C7 as stated fails: a task due in exactly one day with priority high and 150
  minutes spent scores 90, not 70.
\<close>

theorem C7_counterexample:
  "dueDate task_busy = Some (0 + one_day) \<and> priority task_busy = High
   \<and> fst (backend_rules 0 task_busy) = 90
   \<and> fst (backend_rules 0 task_busy) \<noteq> 40 + 30"
  by (simp add: backend_rules_score spec_score_def spec_deadline_points_def spec_days_eq
        daysUntilDue_le_iff task_busy_def one_day_def)

text \<open>
  Claim C8. With priority, time spent and status fixed, for days-until-due values
  \<open>2 \<le> d2 < d1 \<le> 10\<close> the score at \<open>d2\<close> is at least the score at \<open>d1\<close>.
\<close>

theorem C8_nearer_deadline_no_lower_score:
  assumes "dueDate t1 = Some due1" and "dueDate t2 = Some due2"
    and "priority t2 = priority t1" and "timeSpent t2 = timeSpent t1"
    and "status t2 = status t1"
    and "2 \<le> daysUntilDue now due2" and "daysUntilDue now due2 < daysUntilDue now due1"
    and "daysUntilDue now due1 \<le> 10"
  shows "fst (backend_rules now t1) \<le> fst (backend_rules now t2)
       \<and> fst (frontend_rules now t1) \<le> fst (frontend_rules now t2)"
  using assms spec_deadline_points_antimono [of now due2 due1]
  by (simp add: backend_rules_score frontend_rules_score spec_score_def)

text \<open>
  Claim C8 at ten days against two days: 30 against 55.
\<close>

theorem C8_nearer_deadline_no_lower_score_witness:
  "daysUntilDue 0 (2 * one_day) = 2 \<and> daysUntilDue 0 (10 * one_day) = 10
   \<and> fst (backend_rules 0 task_far) \<le> fst (backend_rules 0 task_near)
   \<and> fst (backend_rules 0 task_far) = 30 \<and> fst (backend_rules 0 task_near) = 55"
proof -
  have d2: "daysUntilDue 0 (2 * one_day) = 2"
    by (simp add: daysUntilDue_def one_day_def)
  have d10: "daysUntilDue 0 (10 * one_day) = 10"
    by (simp add: daysUntilDue_def one_day_def)
  have s1: "fst (backend_rules 0 task_far) = 30"
    by (simp add: backend_rules_score spec_score_def spec_deadline_points_def spec_days_eq
        d10 task_far_def)
  have s2: "fst (backend_rules 0 task_near) = 55"
    by (simp add: backend_rules_score spec_score_def spec_deadline_points_def spec_days_eq
        d2 task_near_def)
  have far: "dueDate task_far = Some (10 * one_day)"
    by (simp add: task_far_def)
  have near: "dueDate task_near = Some (2 * one_day)"
    by (simp add: task_near_def)
  have same: "priority task_near = priority task_far"
    "timeSpent task_near = timeSpent task_far" "status task_near = status task_far"
    by (simp_all add: task_far_def task_near_def)
  show ?thesis
    using C8_nearer_deadline_no_lower_score [OF far near same, of 0]
    by (simp add: d2 d10 s1 s2)
qed

text \<open>
  Claim C9. Two runs of a scoring function on the same tasks and the same current time
  give the same suggested priority and the same reason for every task, whatever the two
  random sources draw.
\<close>

theorem C9_rerun_same_labels_and_reasons:
  "map suggestedPriority (backend_suggestions now rnd1 tasks)
     = map suggestedPriority (backend_suggestions now rnd2 tasks)
   \<and> map reason (backend_suggestions now rnd1 tasks)
     = map reason (backend_suggestions now rnd2 tasks)
   \<and> map suggestedPriority (frontend_suggestions now rnd1 tasks)
     = map suggestedPriority (frontend_suggestions now rnd2 tasks)
   \<and> map reason (frontend_suggestions now rnd1 tasks)
     = map reason (frontend_suggestions now rnd2 tasks)"
proof -
  have b1: "map suggestedPriority (backend_suggestions now rnd tasks)
      = map (\<lambda>t. suggestedPriority (backend_suggest now 0 t)) tasks" for rnd
    unfolding backend_suggestions_def
    by (rule map_enumerate_indep) (simp add: backend_suggest_label)
  have b2: "map reason (backend_suggestions now rnd tasks)
      = map (\<lambda>t. reason (backend_suggest now 0 t)) tasks" for rnd
    unfolding backend_suggestions_def
    by (rule map_enumerate_indep) (simp add: backend_suggest_reason)
  have f1: "map suggestedPriority (frontend_suggestions now rnd tasks)
      = map (\<lambda>t. suggestedPriority (frontend_suggest now 0 t)) tasks" for rnd
    unfolding frontend_suggestions_def
    by (rule map_enumerate_indep) (simp add: frontend_suggest_label)
  have f2: "map reason (frontend_suggestions now rnd tasks)
      = map (\<lambda>t. reason (frontend_suggest now 0 t)) tasks" for rnd
    unfolding frontend_suggestions_def
    by (rule map_enumerate_indep) (simp add: frontend_suggest_reason)
  show ?thesis
    by (simp only: b1 b2 f1 f2)
qed

text \<open>
  Claim C10, as amended. When the try block of \<^verbatim>\<open>suggestPrioritization\<close> throws nothing,
  the returned object has exactly the fields suggestions, insights and recommendations,
  each of them truthy: a field that is missing or falsy in the reply is the empty list,
  a truthy field is the reply's own value, so it is a list exactly when the reply's
  field is a list or is missing or falsy.
\<close>

theorem C10_reply_fields:
  assumes "prioritization_reply data = Inr result"
  shows "suggestPrioritization now rnd (Inr data) tasks = result
     \<and> own_keys result = [''suggestions'', ''insights'', ''recommendations'']
     \<and> (\<forall>k \<in> set (own_keys result).
           \<exists>v w. get_prop data k = Inr v \<and> get_prop result k = Inr w
             \<and> w = (if truthy v then v else JArr [])
             \<and> truthy w
             \<and> is_list w = (is_list v \<or> \<not> truthy v))"
proof -
  obtain s where s: "get_prop data ''suggestions'' = Inr s"
    using assms by (auto simp: prioritization_reply_def split: sum.splits)
  obtain i where i: "get_prop data ''insights'' = Inr i"
    using assms by (auto simp: prioritization_reply_def split: sum.splits)
  obtain r where r: "get_prop data ''recommendations'' = Inr r"
    using assms by (auto simp: prioritization_reply_def split: sum.splits)
  have res: "result = JObj [(''suggestions'', js_or s (JArr [])),
                            (''insights'', js_or i (JArr [])),
                            (''recommendations'', js_or r (JArr []))]"
    using assms by (simp add: prioritization_reply_def s i r)
  have run: "suggestPrioritization now rnd (Inr data) tasks = result"
    using assms by (simp add: suggestPrioritization_def)
  have keys: "own_keys result = [''suggestions'', ''insights'', ''recommendations'']"
    by (simp add: res own_keys_def)
  have field: "\<exists>v w. get_prop data k = Inr v \<and> get_prop result k = Inr w
             \<and> w = (if truthy v then v else JArr [])
             \<and> truthy w
             \<and> is_list w = (is_list v \<or> \<not> truthy v)"
    if "k \<in> set (own_keys result)" for k
  proof -
    from that keys consider "k = ''suggestions''" | "k = ''insights''" | "k = ''recommendations''"
      by auto
    then show ?thesis
    proof cases
      case 1
      have "get_prop result k = Inr (js_or s (JArr []))" by (simp add: res 1)
      then show ?thesis
        using s js_or_list [of s] js_or_is_list [of s] by (simp add: 1 js_or_def)
    next
      case 2
      have "get_prop result k = Inr (js_or i (JArr []))" by (simp add: res 2)
      then show ?thesis
        using i js_or_list [of i] js_or_is_list [of i] by (simp add: 2 js_or_def)
    next
      case 3
      have "get_prop result k = Inr (js_or r (JArr []))" by (simp add: res 3)
      then show ?thesis
        using r js_or_list [of r] js_or_is_list [of r] by (simp add: 3 js_or_def)
    qed
  qed
  show ?thesis using run keys field by blast
qed

text \<open>
  The amended claim C10 at a reply without suggestions and with null recommendations.
\<close>

theorem C10_reply_fields_witness:
  "prioritization_reply reply_partial
     = Inr (JObj [(''suggestions'', JArr []),
                  (''insights'', JArr [JStr ''Plan ahead'']),
                  (''recommendations'', JArr [])])
   \<and> suggestPrioritization 0 draw_zero (Inr reply_partial) []
     = JObj [(''suggestions'', JArr []),
             (''insights'', JArr [JStr ''Plan ahead'']),
             (''recommendations'', JArr [])]"
proof -
  have h: "prioritization_reply reply_partial
     = Inr (JObj [(''suggestions'', JArr []),
                  (''insights'', JArr [JStr ''Plan ahead'']),
                  (''recommendations'', JArr [])])"
    by (simp add: prioritization_reply_def reply_partial_def js_or_def)
  show ?thesis
    using h C10_reply_fields [OF h, of 0 draw_zero "[]"] by simp
qed

text \<open>
  Claim C10 as stated fails: a reply whose suggestions is a non-empty text is accepted,
  and the text is returned as the suggestions, which is not a list.
\<close>

theorem C10_counterexample:
  "prioritization_reply reply_text_field
     = Inr (JObj [(''suggestions'', JStr ''none''),
                  (''insights'', JArr []),
                  (''recommendations'', JArr [])])
   \<and> suggestPrioritization 0 draw_zero (Inr reply_text_field) []
     = JObj [(''suggestions'', JStr ''none''),
             (''insights'', JArr []),
             (''recommendations'', JArr [])]
   \<and> get_prop (suggestPrioritization 0 draw_zero (Inr reply_text_field) []) ''suggestions''
     = Inr (JStr ''none'')
   \<and> \<not> is_list (JStr ''none'')"
  by (simp add: suggestPrioritization_def prioritization_reply_def reply_text_field_def
      js_or_def)

end
